theory Spec2Isabelle
  imports Main
begin

section \<open>Values of the running program\<close>

text \<open>
  Identities are the database-assigned \<open>_id\<close> values, time is the clock in seconds
  (the unit of a token's \<open>iat\<close> and \<open>exp\<close>), and a field of a request body or
  of a stored document is \<open>None\<close> when it is absent (\<open>undefined\<close>).
\<close>

type_synonym object_id = nat
type_synonym time = nat
type_synonym secret = string

text \<open>The failures of the token codec.\<close>

datatype codec_error = Malformed | Expired | WrongClass

text \<open>The message of the error object the token library throws for each failure.\<close>

fun codec_message :: "codec_error \<Rightarrow> string" where
  "codec_message Malformed = ''jwt malformed''"
| "codec_message Expired = ''jwt expired''"
| "codec_message WrongClass = ''invalid signature''"

text \<open>
  What a handler throws. \<open>ApiError\<close> carries the status code and the message given to
  its constructor; \<open>JwtError\<close> is what \<open>jwt.verify\<close> throws; the other
  constructors are the faults of the runtime and of the store that no handler
  constructs itself (\<open>CastError\<close> with the type, the value and the path of a value
  that the store cannot cast to the type of its schema). A handler answers with the store it leaves and with either what it
  threw or its response.
\<close>

datatype exn =
    ApiError nat string
  | JwtError codec_error
  | TypeError string
  | ReferenceError string
  | StoreError string
  | CastError string string string

fun exn_status :: "exn \<Rightarrow> nat option" where
  "exn_status (ApiError code msg) = Some code"
| "exn_status _ = None"

fun exn_message :: "exn \<Rightarrow> string" where
  "exn_message (ApiError code msg) = msg"
| "exn_message (JwtError e) = codec_message e"
| "exn_message (TypeError msg) = msg"
| "exn_message (ReferenceError msg) = msg"
| "exn_message (StoreError msg) = msg"
| "exn_message (CastError kind v path) =
     ''Cast to '' @ kind @ '' failed for value '' @ [CHR 0x22] @ v @ [CHR 0x22]
       @ '' (type string) at path '' @ [CHR 0x22] @ path @ [CHR 0x22]"

subsection \<open>Strings: \<open>trim\<close> and \<open>toLowerCase\<close>\<close>

text \<open>
  Strings are ASCII here; \<open>trim\<close> removes the ASCII white space (space, tab, line
  feed, vertical tab, form feed, carriage return) at both ends.
\<close>

definition is_space :: "char \<Rightarrow> bool" where
  "is_space c = (c \<in> set [CHR '' '', CHR 0x09, CHR 0x0A, CHR 0x0B, CHR 0x0C, CHR 0x0D])"

definition trim :: "string \<Rightarrow> string" where
  "trim s = rev (dropWhile is_space (rev (dropWhile is_space s)))"

definition lower_char :: "char \<Rightarrow> char" where
  "lower_char c =
     (let n = (of_char c :: nat) in if 65 \<le> n \<and> n \<le> 90 then char_of (n + 32) else c)"

definition toLowerCase :: "string \<Rightarrow> string" where
  "toLowerCase s = map lower_char s"

section \<open>Token Codec\<close>

datatype token_class = Access | Refresh

record config =
  access_ttl :: time
  refresh_ttl :: time
  signing_key :: secret
  hash_cost :: nat

text \<open>
  The signature is an ideal keyed MAC: it records the key and the fields it was
  computed over, so it verifies exactly for the key and the fields of its making.
\<close>

datatype signature = Mac secret object_id token_class time time

record token =
  subject :: object_id
  tclass :: token_class
  issued_at :: time
  expires_at :: time
  signature :: signature

text \<open>
  A serialized token is the string a client presents: either the encoding of a token
  or a string that decodes to none (\<open>Raw []\<close> is the empty string).
\<close>

datatype serialized = Encoded token | Raw string

text \<open>
  Modelled from the spec: the token codec. The methods \<open>generateAccessToken\<close> and
  \<open>generateRefreshToken\<close> of the user model (\<open>models/user.model.js\<close>) are
  missing from the sources, and \<open>jwt.verify\<close> belongs to a library. The spec
  (4.2): \<open>mint(subject, class, now)\<close> produces a signed token with
  \<open>issued_at = now\<close> and \<open>expires_at = now + ttl(class)\<close>;
  \<open>validate(serialized, expected_class, now)\<close> fails with \<open>Malformed\<close> if the
  signature does not verify or the payload cannot be decoded, with \<open>Expired\<close> if
  \<open>now > expires_at\<close>, with \<open>WrongClass\<close> if the class is not the expected
  one, and returns the decoded token otherwise.
\<close>

definition ttl :: "config \<Rightarrow> token_class \<Rightarrow> time" where
  "ttl cfg cls = (case cls of Access \<Rightarrow> access_ttl cfg | Refresh \<Rightarrow> refresh_ttl cfg)"

definition mint_token :: "config \<Rightarrow> object_id \<Rightarrow> token_class \<Rightarrow> time \<Rightarrow> token" where
  "mint_token cfg sub cls now =
     \<lparr> subject = sub, tclass = cls, issued_at = now, expires_at = now + ttl cfg cls,
       signature = Mac (signing_key cfg) sub cls now (now + ttl cfg cls) \<rparr>"

definition mint :: "config \<Rightarrow> object_id \<Rightarrow> token_class \<Rightarrow> time \<Rightarrow> serialized" where
  "mint cfg sub cls now = Encoded (mint_token cfg sub cls now)"

definition signature_verifies :: "config \<Rightarrow> token \<Rightarrow> bool" where
  "signature_verifies cfg t =
     (signature t = Mac (signing_key cfg) (subject t) (tclass t) (issued_at t) (expires_at t))"

definition validate :: "config \<Rightarrow> serialized \<Rightarrow> token_class \<Rightarrow> time \<Rightarrow> codec_error + token" where
  "validate cfg ser expected_class now =
     (case ser of
        Raw s \<Rightarrow> Inl Malformed
      | Encoded t \<Rightarrow>
          if \<not> signature_verifies cfg t then Inl Malformed
          else if now > expires_at t then Inl Expired
          else if tclass t \<noteq> expected_class then Inl WrongClass
          else Inr t)"

section \<open>Credential Verifier\<close>

text \<open>
  Modelled from the spec: the credential verifier. The method \<open>isPasswordCorrect\<close>
  and the hashing on save of the user model (\<open>models/user.model.js\<close>) are missing
  from the sources. The spec (3, 4.1): a credential is a password hash with its salt or
  cost; \<open>verify(password_hash, salt_or_cost, candidate_plaintext)\<close> is a salted
  one-way hash comparison without side effects, and any internal error is a failed
  verification. The hash is ideal: it is determined by, and determines, the cost and
  the plaintext.
\<close>

datatype password_hash = Derived nat string

definition derive :: "nat \<Rightarrow> string \<Rightarrow> password_hash" where
  "derive cost plaintext = Derived cost plaintext"

fun cost_of :: "password_hash \<Rightarrow> nat" where
  "cost_of (Derived cost plaintext) = cost"

definition verify :: "password_hash \<Rightarrow> nat \<Rightarrow> string \<Rightarrow> bool" where
  "verify h cost candidate = (h = derive cost candidate)"

section \<open>Record Store: the user documents\<close>

text \<open>
  A user document with the fields the controller reads and writes. The collection is
  the list of its documents in insertion order; \<open>findOne\<close> answers with the first
  document that matches.
\<close>

record user =
  user_id :: object_id
  email :: "string option"
  username :: "string option"
  fullName :: "string option"
  password :: "password_hash option"
  refreshToken :: "serialized option"

text \<open>The document without password and refresh token: \<open>select("-password -refreshToken")\<close>.\<close>

record profile =
  profile_id :: object_id
  profile_email :: "string option"
  profile_username :: "string option"
  profile_fullName :: "string option"

definition select_public :: "user \<Rightarrow> profile" where
  "select_public u =
     \<lparr> profile_id = user_id u, profile_email = email u, profile_username = username u,
       profile_fullName = fullName u \<rparr>"

definition findOne :: "(user \<Rightarrow> bool) \<Rightarrow> user list \<Rightarrow> user option" where
  "findOne matches us = find matches us"

definition findById :: "object_id \<Rightarrow> user list \<Rightarrow> user option" where
  "findById i us = findOne (\<lambda>u. user_id u = i) us"

text \<open>\<open>user.save()\<close>: the stored document with the identity of \<open>u\<close> becomes \<open>u\<close>.\<close>

fun save :: "user \<Rightarrow> user list \<Rightarrow> user list" where
  "save u [] = []"
| "save u (x # xs) = (if user_id x = user_id u then u # xs else x # save u xs)"

text \<open>\<open>findByIdAndUpdate(userId, {$unset: {refreshToken: 1}})\<close>.\<close>

fun unset_refreshToken :: "object_id \<Rightarrow> user list \<Rightarrow> user list" where
  "unset_refreshToken i [] = []"
| "unset_refreshToken i (x # xs) =
     (if user_id x = i then x\<lparr>refreshToken := None\<rparr> # xs
      else x # unset_refreshToken i xs)"

definition fresh_id :: "user list \<Rightarrow> object_id" where
  "fresh_id us = Suc (fold max (map user_id us) 0)"

text \<open>
  Modelled from the spec: \<open>createAccount(profile, hashed_credential)\<close> of the record
  store (6), which stores a freshly hashed credential (4.3). The schema of the user
  model (\<open>models/user.model.js\<close>) is missing from the sources, so what it
  requires of a new document (required fields, unique indexes) is the parameter
  \<open>accepts\<close>; a document it refuses makes the store throw.
\<close>

definition User_create ::
  "(user list \<Rightarrow> user \<Rightarrow> bool) \<Rightarrow> config \<Rightarrow> user list \<Rightarrow>
   string option \<Rightarrow> string option \<Rightarrow> string option \<Rightarrow> string option \<Rightarrow>
   user list \<times> (exn + user)" where
  "User_create accepts cfg us e n f p =
     (let doc = \<lparr> user_id = fresh_id us, email = e, username = n, fullName = f,
                   password = map_option (derive (hash_cost cfg)) p, refreshToken = None \<rparr>
      in if accepts us doc then (us @ [doc], Inr doc)
         else (us, Inl (StoreError ''User validation failed'')))"

definition isPasswordCorrect :: "user \<Rightarrow> string option \<Rightarrow> bool" where
  "isPasswordCorrect u candidate =
     (case (password u, candidate) of
        (Some h, Some p) \<Rightarrow> verify h (cost_of h) p
      | _ \<Rightarrow> False)"

section \<open>Requests and responses\<close>

text \<open>
  The parts of a request the user controller reads. \<open>header_Authorization\<close> is the
  header after \<open>replace("Bearer ", "")\<close>; \<open>req_user\<close> is \<open>req.user._id\<close>, set by
  the authentication middleware on the routes it guards.
\<close>

record request =
  body_email :: "string option"
  body_username :: "string option"
  body_fullName :: "string option"
  body_password :: "string option"
  body_oldPassword :: "string option"
  body_newPassword :: "string option"
  body_refreshToken :: "serialized option"
  body_token :: "serialized option"
  cookies_refreshToken :: "serialized option"
  header_Authorization :: "serialized option"
  req_user :: "object_id option"

definition empty_request :: request where
  "empty_request =
     \<lparr> body_email = None, body_username = None, body_fullName = None, body_password = None,
       body_oldPassword = None, body_newPassword = None, body_refreshToken = None,
       body_token = None, cookies_refreshToken = None, header_Authorization = None,
       req_user = None \<rparr>"

datatype jvalue =
    JToken serialized
  | JProfile profile
  | JObject "(string \<times> jvalue) list"
  | JNull
  | JUndefined

record response =
  statusCode :: nat
  cookies :: "(string \<times> jvalue) list"
  data :: jvalue
  message :: string

type_synonym outcome = "user list \<times> (exn + response)"

text \<open>JavaScript truthiness of an optional string, and \<open>a || b\<close>.\<close>

definition truthy :: "string option \<Rightarrow> bool" where
  "truthy v = (case v of None \<Rightarrow> False | Some s \<Rightarrow> s \<noteq> [])"

definition truthy_token :: "serialized option \<Rightarrow> bool" where
  "truthy_token v = (case v of None \<Rightarrow> False | Some t \<Rightarrow> t \<noteq> Raw [])"

definition js_or :: "serialized option \<Rightarrow> serialized option \<Rightarrow> serialized option" where
  "js_or a b = (if truthy_token a then a else b)"

text \<open>\<open>fields.some((field) => field?.trim() === "")\<close>\<close>

definition some_field_empty :: "string option list \<Rightarrow> bool" where
  "some_field_empty fs = list_ex (\<lambda>field. map_option trim field = Some []) fs"

section \<open>User controller\<close>

text \<open>
  The handlers of \<open>controllers/user.controller.js\<close>. The file holds two variants of
  the controller; where they differ the second one has the suffix \<open>_v2\<close>. The clock
  that the codec reads is the argument \<open>now\<close>.

  \<open>generateAccessAndRefreshToken\<close> looks the user up with \<open>User.findOne(userId)\<close>:
  the store takes a filter that is an identity as the filter on \<open>_id\<close>. A user that is
  not found makes \<open>user.generateAccessToken()\<close> throw inside the \<open>try\<close>, which
  rethrows the error of status 500.
\<close>

definition generateAccessAndRefreshToken ::
  "config \<Rightarrow> time \<Rightarrow> user list \<Rightarrow> object_id \<Rightarrow> user list \<times> (exn + serialized \<times> serialized)" where
  "generateAccessAndRefreshToken cfg now us userId =
     (case findById userId us of
        None \<Rightarrow>
          (us, Inl (ApiError 500
             ''Something went wrong while generating refresh and access token''))
      | Some u \<Rightarrow>
          (let accessToken = mint cfg (user_id u) Access now;
               newToken = mint cfg (user_id u) Refresh now
           in (save (u\<lparr>refreshToken := Some newToken\<rparr>) us, Inr (accessToken, newToken))))"

definition public_profile :: "object_id \<Rightarrow> user list \<Rightarrow> jvalue" where
  "public_profile i us =
     (case findById i us of None \<Rightarrow> JNull | Some u \<Rightarrow> JProfile (select_public u))"

definition json :: "nat \<Rightarrow> (string \<times> jvalue) list \<Rightarrow> jvalue \<Rightarrow> string \<Rightarrow> response" where
  "json code cs d msg = \<lparr> statusCode = code, cookies = cs, data = d, message = msg \<rparr>"

subsection \<open>Register\<close>

text \<open>
  The duplicate check looks for a document whose email or username equals the value of
  the request as it came; the document is created with the trimmed, lower-cased
  username, and \<open>username.trim()\<close> throws when the username is absent. The first
  variant builds its response from \<open>accessToken\<close> and \<open>refreshToken\<close>, names that
  are bound nowhere in its scope, so evaluating the response throws.
\<close>

definition registerUser ::
  "(user list \<Rightarrow> user \<Rightarrow> bool) \<Rightarrow> config \<Rightarrow> user list \<Rightarrow> request \<Rightarrow> outcome" where
  "registerUser accepts cfg us req =
     (if some_field_empty [body_email req, body_username req, body_fullName req, body_password req]
      then (us, Inl (ApiError 400 ''Please fill all the fields''))
      else
        (case findOne (\<lambda>u. email u = body_email req \<or> username u = body_username req) us of
           Some existingUser \<Rightarrow>
             (us, Inl (ApiError 400 ''User with email or username already exists''))
         | None \<Rightarrow>
             (case body_username req of
                None \<Rightarrow> (us, Inl (TypeError ''Cannot read properties of undefined (reading 'trim')''))
              | Some name \<Rightarrow>
                  (case User_create accepts cfg us (body_email req)
                          (Some (toLowerCase (trim name))) (body_fullName req) (body_password req) of
                     (us', Inl e) \<Rightarrow> (us', Inl e)
                   | (us', Inr u) \<Rightarrow>
                       (case findById (user_id u) us' of
                          None \<Rightarrow> (us', Inl (ApiError 500 ''User creation failed''))
                        | Some createdUser \<Rightarrow>
                            (us', Inl (ReferenceError ''accessToken is not defined'')))))))"

definition registerUser_v2 ::
  "(user list \<Rightarrow> user \<Rightarrow> bool) \<Rightarrow> config \<Rightarrow> user list \<Rightarrow> request \<Rightarrow> outcome" where
  "registerUser_v2 accepts cfg us req =
     (if some_field_empty [body_email req, body_username req, body_fullName req, body_password req]
      then (us, Inl (ApiError 400 ''Please fill all the fields''))
      else
        (case findOne (\<lambda>u. email u = body_email req \<or> username u = body_username req) us of
           Some existingUser \<Rightarrow>
             (us, Inl (ApiError 400 ''User with email or username already exists''))
         | None \<Rightarrow>
             (case body_username req of
                None \<Rightarrow> (us, Inl (TypeError ''Cannot read properties of undefined (reading 'trim')''))
              | Some name \<Rightarrow>
                  (case User_create accepts cfg us (body_email req)
                          (Some (toLowerCase (trim name))) (body_fullName req) (body_password req) of
                     (us', Inl e) \<Rightarrow> (us', Inl e)
                   | (us', Inr u) \<Rightarrow>
                       (case findById (user_id u) us' of
                          None \<Rightarrow> (us', Inl (ApiError 500 ''User creation failed''))
                        | Some createdUser \<Rightarrow>
                            (us', Inr (json 200 [] (JProfile (select_public createdUser))
                                        ''User created successfully'')))))))"

subsection \<open>Login\<close>

definition loginUser :: "config \<Rightarrow> time \<Rightarrow> user list \<Rightarrow> request \<Rightarrow> outcome" where
  "loginUser cfg now us req =
     (if \<not> truthy (body_username req) \<or> \<not> truthy (body_password req)
      then (us, Inl (ApiError 400 ''Please provide username and password''))
      else if some_field_empty [body_username req, body_password req]
      then (us, Inl (ApiError 400 ''Please fill all the fields''))
      else
        (case findOne (\<lambda>u. username u = body_username req) us of
           None \<Rightarrow> (us, Inl (ApiError 401 ''Invalid username or password''))
         | Some u \<Rightarrow>
             if \<not> isPasswordCorrect u (body_password req)
             then (us, Inl (ApiError 401 ''Invalid Credentials''))
             else
               (case generateAccessAndRefreshToken cfg now us (user_id u) of
                  (us', Inl e) \<Rightarrow> (us', Inl e)
                | (us', Inr (accessToken, newToken)) \<Rightarrow>
                    (us', Inr (json 200
                       [(''accessToken'', JToken accessToken), (''refreshToken'', JToken newToken)]
                       (JObject [(''user'', public_profile (user_id u) us'),
                                 (''token'', JToken accessToken),
                                 (''accessToken'', JToken accessToken),
                                 (''refreshToken'', JToken newToken)])
                       ''User logged In Successfully'')))))"

definition loginUser_v2 :: "config \<Rightarrow> time \<Rightarrow> user list \<Rightarrow> request \<Rightarrow> outcome" where
  "loginUser_v2 cfg now us req =
     (if \<not> truthy (body_email req) \<or> \<not> truthy (body_password req)
      then (us, Inl (ApiError 400 ''Please provide email and password''))
      else if some_field_empty [body_email req, body_password req]
      then (us, Inl (ApiError 400 ''Please fill all the fields''))
      else
        (case findOne (\<lambda>u. email u = body_email req) us of
           None \<Rightarrow> (us, Inl (ApiError 401 ''Invalid email or password''))
         | Some u \<Rightarrow>
             if \<not> isPasswordCorrect u (body_password req)
             then (us, Inl (ApiError 401 ''Invalid Credentials''))
             else
               (case generateAccessAndRefreshToken cfg now us (user_id u) of
                  (us', Inl e) \<Rightarrow> (us', Inl e)
                | (us', Inr (accessToken, newToken)) \<Rightarrow>
                    (us', Inr (json 200
                       [(''accessToken'', JToken accessToken), (''refreshToken'', JToken newToken)]
                       (JObject [(''user'', public_profile (user_id u) us')])
                       ''User logged In Successfully'')))))"

subsection \<open>Logout\<close>

definition logoutUser :: "user list \<Rightarrow> request \<Rightarrow> outcome" where
  "logoutUser us req =
     (case req_user req of
        None \<Rightarrow> (us, Inl (TypeError ''Cannot read properties of undefined (reading '_id')''))
      | Some userId \<Rightarrow>
          (case findById userId us of
             None \<Rightarrow> (us, Inl (ApiError 401 ''User not found''))
           | Some u \<Rightarrow>
               (unset_refreshToken userId us,
                Inr (json 200 [(''accessToken'', JNull), (''refreshToken'', JNull)]
                       (JObject []) ''User logged out successfully''))))"

subsection \<open>Refresh\<close>

text \<open>
  \<open>jwt.verify(incomingRefreshToken, process.env.REFRESH_TOKEN_SECRET)\<close> is the codec's
  \<open>validate\<close> with the expected class \<open>Refresh\<close>, and \<open>decodedToken?._id\<close> is the
  subject of the token.
\<close>

definition incomingRefreshToken :: "request \<Rightarrow> serialized option" where
  "incomingRefreshToken req =
     js_or (js_or (js_or (cookies_refreshToken req) (body_refreshToken req)) (body_token req))
       (header_Authorization req)"

text \<open>The body of the \<open>try\<close> block: whatever it throws is caught by the handler.\<close>

definition refresh_try :: "config \<Rightarrow> time \<Rightarrow> user list \<Rightarrow> serialized \<Rightarrow> outcome" where
  "refresh_try cfg now us incoming =
     (case validate cfg incoming Refresh now of
        Inl e \<Rightarrow> (us, Inl (JwtError e))
      | Inr decodedToken \<Rightarrow>
          (case findById (subject decodedToken) us of
             None \<Rightarrow> (us, Inl (ApiError 401 ''Invalid refresh token''))
           | Some u \<Rightarrow>
               if Some incoming \<noteq> refreshToken u
               then (us, Inl (ApiError 401 ''Refresh token is expired or used''))
               else
                 (case generateAccessAndRefreshToken cfg now us (user_id u) of
                    (us', Inl e) \<Rightarrow> (us', Inl e)
                  | (us', Inr (accessToken, newRefreshToken)) \<Rightarrow>
                      (us', Inr (json 200
                         [(''accessToken'', JToken accessToken),
                          (''refreshToken'', JToken newRefreshToken)]
                         (JObject [(''accessToken'', JToken accessToken),
                                   (''refreshToken'', JToken newRefreshToken),
                                   (''token'', JToken accessToken)])
                         ''Access token refreshed'')))))"

definition refreshAccessToken :: "config \<Rightarrow> time \<Rightarrow> user list \<Rightarrow> request \<Rightarrow> outcome" where
  "refreshAccessToken cfg now us req =
     (case incomingRefreshToken req of
        None \<Rightarrow> (us, Inl (ApiError 401 ''Unauthorized request''))
      | Some incoming \<Rightarrow>
          if incoming = Raw [] then (us, Inl (ApiError 401 ''Unauthorized request''))
          else
            (case refresh_try cfg now us incoming of
               (us', Inl error) \<Rightarrow>
                 (us', Inl (ApiError 401
                    (if exn_message error = [] then ''Invalid refresh token''
                     else exn_message error)))
             | (us', Inr res) \<Rightarrow> (us', Inr res)))"

text \<open>
  The second variant takes \<open>newRefreshToken\<close> out of the result of
  \<open>generateAccessAndRefreshToken\<close>, which has the properties \<open>accessToken\<close> and
  \<open>refreshToken\<close> only: the name is bound to \<open>undefined\<close>.
\<close>

definition incomingRefreshToken_v2 :: "request \<Rightarrow> serialized option" where
  "incomingRefreshToken_v2 req = js_or (cookies_refreshToken req) (body_refreshToken req)"

definition refresh_try_v2 :: "config \<Rightarrow> time \<Rightarrow> user list \<Rightarrow> serialized \<Rightarrow> outcome" where
  "refresh_try_v2 cfg now us incoming =
     (case validate cfg incoming Refresh now of
        Inl e \<Rightarrow> (us, Inl (JwtError e))
      | Inr decodedToken \<Rightarrow>
          (case findById (subject decodedToken) us of
             None \<Rightarrow> (us, Inl (ApiError 401 ''User not found''))
           | Some u \<Rightarrow>
               if refreshToken u \<noteq> Some incoming
               then (us, Inl (ApiError 401 ''Invalid or expired refresh token''))
               else
                 (case generateAccessAndRefreshToken cfg now us (user_id u) of
                    (us', Inl e) \<Rightarrow> (us', Inl e)
                  | (us', Inr (accessToken, storedToken)) \<Rightarrow>
                      (let newRefreshToken = JUndefined
                       in (us', Inr (json 200
                            [(''accessToken'', JToken accessToken),
                             (''refreshToken'', newRefreshToken)]
                            (JObject [(''accessToken'', JToken accessToken),
                                      (''newRefreshToken'', newRefreshToken)])
                            ''Access token refreshed successfully''))))))"

definition refreshAccessToken_v2 :: "config \<Rightarrow> time \<Rightarrow> user list \<Rightarrow> request \<Rightarrow> outcome" where
  "refreshAccessToken_v2 cfg now us req =
     (case incomingRefreshToken_v2 req of
        None \<Rightarrow> (us, Inl (ApiError 401 ''Please login to access this resource''))
      | Some incoming \<Rightarrow>
          if incoming = Raw []
          then (us, Inl (ApiError 401 ''Please login to access this resource''))
          else
            (case refresh_try_v2 cfg now us incoming of
               (us', Inl error) \<Rightarrow>
                 (us', Inl (ApiError 401 (''Invalid refresh token '' @ exn_message error)))
             | (us', Inr res) \<Rightarrow> (us', Inr res)))"

subsection \<open>Change password\<close>

text \<open>
  The new credential is hashed when the document is saved: the hook of the user model
  is missing from the sources, and the spec (4.3) has the operation re-derive and store
  a new salted hash.
\<close>

definition changeUserPassword :: "config \<Rightarrow> user list \<Rightarrow> request \<Rightarrow> outcome" where
  "changeUserPassword cfg us req =
     (case req_user req of
        None \<Rightarrow> (us, Inl (TypeError ''Cannot read properties of undefined (reading '_id')''))
      | Some userId \<Rightarrow>
          (case findById userId us of
             None \<Rightarrow>
               (us, Inl (TypeError ''Cannot read properties of null (reading 'isPasswordCorrect')''))
           | Some u \<Rightarrow>
               if \<not> isPasswordCorrect u (body_oldPassword req)
               then (us, Inl (ApiError 401 ''Invalid old password''))
               else if body_oldPassword req = body_newPassword req
               then (us, Inl (ApiError 400 ''New password cannot be same as old password''))
               else
                 (save (u\<lparr>password := map_option (derive (hash_cost cfg)) (body_newPassword req)\<rparr>) us,
                  Inr (json 200 [] (JObject []) ''Password changed successfully''))))"

section \<open>Refresh in steps\<close>

text \<open>
  The first variant of \<open>refreshAccessToken\<close> in the steps between which the runtime
  can run another handler: each step ends with an awaited call of the store. The first
  step verifies the token, reads the user (\<open>findById\<close>) and compares the stored token;
  the second is the read of \<open>generateAccessAndRefreshToken\<close> (\<open>findOne\<close>); the third
  mints the tokens and saves the document, which writes the path that was modified,
  \<open>refreshToken\<close>, whatever is stored there. An error is caught and rethrown with
  status 401 as in the handler. A call is the token it was given, then the user it has
  read, then its answer.
\<close>

datatype refresh_call =
    Presented serialized
  | Verified user
  | Loaded user
  | Finished "exn + response"

fun store_refreshToken :: "object_id \<Rightarrow> serialized \<Rightarrow> user list \<Rightarrow> user list" where
  "store_refreshToken i r [] = []"
| "store_refreshToken i r (x # xs) =
     (if user_id x = i then x\<lparr>refreshToken := Some r\<rparr> # xs
      else x # store_refreshToken i r xs)"

definition catch_refresh :: "exn \<Rightarrow> exn" where
  "catch_refresh error =
     ApiError 401 (if exn_message error = [] then ''Invalid refresh token''
                   else exn_message error)"

definition refresh_response :: "serialized \<Rightarrow> serialized \<Rightarrow> response" where
  "refresh_response accessToken newRefreshToken =
     json 200
       [(''accessToken'', JToken accessToken), (''refreshToken'', JToken newRefreshToken)]
       (JObject [(''accessToken'', JToken accessToken),
                 (''refreshToken'', JToken newRefreshToken),
                 (''token'', JToken accessToken)])
       ''Access token refreshed''"

fun refresh_step :: "config \<Rightarrow> time \<Rightarrow> user list \<Rightarrow> refresh_call \<Rightarrow> user list \<times> refresh_call" where
  "refresh_step cfg now us (Presented incoming) =
     (case validate cfg incoming Refresh now of
        Inl e \<Rightarrow> (us, Finished (Inl (catch_refresh (JwtError e))))
      | Inr decodedToken \<Rightarrow>
          (case findById (subject decodedToken) us of
             None \<Rightarrow> (us, Finished (Inl (catch_refresh (ApiError 401 ''Invalid refresh token''))))
           | Some u \<Rightarrow>
               if Some incoming \<noteq> refreshToken u
               then (us, Finished (Inl (catch_refresh
                           (ApiError 401 ''Refresh token is expired or used''))))
               else (us, Verified u)))"
| "refresh_step cfg now us (Verified u) =
     (case findById (user_id u) us of
        None \<Rightarrow>
          (us, Finished (Inl (catch_refresh (ApiError 500
             ''Something went wrong while generating refresh and access token''))))
      | Some v \<Rightarrow> (us, Loaded v))"
| "refresh_step cfg now us (Loaded v) =
     (let accessToken = mint cfg (user_id v) Access now;
          newToken = mint cfg (user_id v) Refresh now
      in (store_refreshToken (user_id v) newToken us,
          Finished (Inr (refresh_response accessToken newToken))))"
| "refresh_step cfg now us (Finished r) = (us, Finished r)"

text \<open>
  Two calls, with the times of their clocks, run under a schedule that says whose step is
  next.
\<close>

datatype turn = CallA | CallB

fun interleave ::
  "config \<Rightarrow> time \<Rightarrow> time \<Rightarrow> turn list \<Rightarrow> user list \<times> refresh_call \<times> refresh_call
     \<Rightarrow> user list \<times> refresh_call \<times> refresh_call" where
  "interleave cfg nowA nowB [] s = s"
| "interleave cfg nowA nowB (CallA # sched) (us, a, b) =
     (case refresh_step cfg nowA us a of (us', a') \<Rightarrow> interleave cfg nowA nowB sched (us', a', b))"
| "interleave cfg nowA nowB (CallB # sched) (us, a, b) =
     (case refresh_step cfg nowB us b of (us', b') \<Rightarrow> interleave cfg nowA nowB sched (us', a, b'))"

section \<open>Task controller\<close>

text \<open>
  A task document as the schema of \<open>models/task.model.js\<close> has it: \<open>title\<close> and
  \<open>description\<close> are strings that the schema trims, \<open>status\<close> and \<open>priority\<close> are
  strings, \<open>dueDate\<close> is a date, \<open>userId\<close> is the identity of the owner, and the
  option \<open>timestamps\<close> adds \<open>createdAt\<close> and \<open>updatedAt\<close>. A date is its number of
  milliseconds since the epoch.
\<close>

type_synonym date = int

record task =
  task_id :: object_id
  title :: "string option"
  description :: "string option"
  status :: "string option"
  priority :: "string option"
  dueDate :: "date option"
  userId :: object_id
  createdAt :: date
  updatedAt :: date

text \<open>
  The parts of a request the task controller reads: \<open>treq_user\<close> is \<open>req.user._id\<close>
  (\<open>None\<close> when \<open>req.user\<close> is unset), \<open>params_id\<close> is \<open>req.params.id\<close> as an
  identity (\<open>None\<close> when it is missing), the rest is the body.
\<close>

record task_request =
  treq_user :: "object_id option"
  params_id :: "object_id option"
  tbody_title :: "string option"
  tbody_description :: "string option"
  tbody_status :: "string option"
  tbody_dueDate :: "string option"
  tbody_priority :: "string option"






text \<open>
  What an update does to a field: a value that is \<open>undefined\<close> is left out of the
  update (\<open>Keep\<close>), any other value is assigned after the cast to the type of the
  schema (\<open>Assign None\<close> assigns \<open>null\<close>).
\<close>

datatype 'a field_update = Keep | Assign "'a option"

fun apply_update :: "'a field_update \<Rightarrow> 'a option \<Rightarrow> 'a option" where
  "apply_update Keep old = old"
| "apply_update (Assign v) old = v"

text \<open>A string field: the value of the body as it is; and a string field that the schema trims.\<close>

definition castString :: "string option \<Rightarrow> string field_update" where
  "castString v = (case v of None \<Rightarrow> Keep | Some s \<Rightarrow> Assign (Some s))"

definition castTrimmed :: "string option \<Rightarrow> string field_update" where
  "castTrimmed v = (case v of None \<Rightarrow> Keep | Some s \<Rightarrow> Assign (Some (trim s)))"


text \<open>
  The update of \<open>updateTaskById\<close>:
  \<open>{title, description, status: status || "pending", dueDate, priority}\<close>, with the
  date that \<open>dueDate\<close> was cast to, and \<open>updatedAt\<close> set to the time of the update.
\<close>

definition update_fields :: "date \<Rightarrow> task_request \<Rightarrow> date field_update \<Rightarrow> task \<Rightarrow> task" where
  "update_fields now req due t =
     t\<lparr> title := apply_update (castTrimmed (tbody_title req)) (title t),
        description := apply_update (castTrimmed (tbody_description req)) (description t),
        status := (if truthy (tbody_status req) then tbody_status req else Some ''pending''),
        dueDate := apply_update due (dueDate t),
        priority := apply_update (castString (tbody_priority req)) (priority t),
        updatedAt := now \<rparr>"





section \<open>Notions of the specification\<close>

text \<open>
  The session of an identity is the refresh token stored in its user document
  (\<open>getSession\<close> of the record store).
\<close>

definition current_refresh_token :: "object_id \<Rightarrow> user list \<Rightarrow> serialized option" where
  "current_refresh_token i us =
     (case findById i us of None \<Rightarrow> None | Some u \<Rightarrow> refreshToken u)"

text \<open>An operation fails with Unauthorized: status 401, and the store is as it was.\<close>

definition unauthorized :: "user list \<Rightarrow> outcome \<Rightarrow> bool" where
  "unauthorized us out =
     (fst out = us \<and> (case snd out of Inl e \<Rightarrow> exn_status e = Some 401 | Inr res \<Rightarrow> False))"

definition succeeded :: "'s \<times> (exn + 'r) \<Rightarrow> bool" where
  "succeeded out = (case snd out of Inl e \<Rightarrow> False | Inr res \<Rightarrow> True)"



text \<open>
  A call in steps is on its way to the answer of a successful Refresh, and the number of
  steps it has left.
\<close>

definition on_course :: "config \<Rightarrow> time \<Rightarrow> object_id \<Rightarrow> user list \<Rightarrow> refresh_call \<Rightarrow> bool" where
  "on_course cfg now i us call =
     (case call of
        Presented tok \<Rightarrow> False
      | Verified u \<Rightarrow> user_id u = i \<and> findById i us \<noteq> None
      | Loaded v \<Rightarrow> user_id v = i \<and> findById i us \<noteq> None
      | Finished r \<Rightarrow>
          r = Inr (refresh_response (mint cfg i Access now) (mint cfg i Refresh now))
          \<and> findById i us \<noteq> None)"

fun steps_left :: "refresh_call \<Rightarrow> nat" where
  "steps_left (Presented tok) = 3"
| "steps_left (Verified u) = 2"
| "steps_left (Loaded v) = 1"
| "steps_left (Finished r) = 0"




section \<open>A scenario\<close>

text \<open>
  The scenario of the specification: alice registers with \<open>alice@x.com\<close> and
  \<open>secret123\<close>, logs in at time 100 and presents the refresh token she got.
\<close>

definition scenario_config :: config where
  "scenario_config =
     \<lparr> access_ttl = 900, refresh_ttl = 86400, signing_key = ''key'', hash_cost = 10 \<rparr>"

definition alice :: user where
  "alice = \<lparr> user_id = 1, email = Some ''alice@x.com'', username = Some ''alice'',
             fullName = Some ''Alice'', password = Some (derive 10 ''secret123''),
             refreshToken = None \<rparr>"

definition alice_register :: request where
  "alice_register =
     empty_request\<lparr> body_email := Some ''alice@x.com'', body_username := Some ''alice'',
       body_fullName := Some ''Alice'', body_password := Some ''secret123'' \<rparr>"

definition alice_login :: request where
  "alice_login =
     empty_request\<lparr> body_username := Some ''alice'', body_password := Some ''secret123'' \<rparr>"

definition alice_login_v2 :: request where
  "alice_login_v2 =
     empty_request\<lparr> body_email := Some ''alice@x.com'', body_password := Some ''secret123'' \<rparr>"

definition alice_token :: serialized where
  "alice_token = mint scenario_config 1 Refresh 100"

definition alice_session :: "user list" where
  "alice_session = [alice\<lparr> refreshToken := Some alice_token \<rparr>]"

definition present :: "serialized \<Rightarrow> request" where
  "present tok = empty_request\<lparr> cookies_refreshToken := Some tok \<rparr>"

definition as_user :: "object_id \<Rightarrow> request" where
  "as_user i = empty_request\<lparr> req_user := Some i \<rparr>"

text \<open>A schema that accepts every document.\<close>

definition accepts_all :: "user list \<Rightarrow> user \<Rightarrow> bool" where
  "accepts_all us u = True"

text \<open>A second registration, with alice's username in another case.\<close>

definition alice_upper :: request where
  "alice_upper =
     empty_request\<lparr> body_email := Some ''eve@x.com'', body_username := Some ''Alice'',
       body_fullName := Some ''Eve'', body_password := Some ''hunter22'' \<rparr>"





section \<open>Evaluation of the scenario\<close>

lemmas scenario_defs =
  scenario_config_def alice_def alice_register_def alice_login_def alice_login_v2_def alice_token_def
  alice_session_def present_def as_user_def accepts_all_def empty_request_def

lemmas eval_defs =
  truthy_def truthy_token_def js_or_def some_field_empty_def trim_def is_space_def
  findOne_def findById_def isPasswordCorrect_def verify_def derive_def
  mint_def mint_token_def ttl_def validate_def signature_verifies_def
  json_def public_profile_def select_public_def Let_def
  generateAccessAndRefreshToken_def loginUser_def loginUser_v2_def logoutUser_def
  incomingRefreshToken_def refresh_try_def refreshAccessToken_def
  incomingRefreshToken_v2_def refresh_try_v2_def refreshAccessToken_v2_def
  changeUserPassword_def current_refresh_token_def unauthorized_def succeeded_def
  refresh_response_def catch_refresh_def

section \<open>The record store\<close>

lemma findById_id: "findById i us = Some u \<Longrightarrow> user_id u = i"
  by (auto simp: findById_def findOne_def find_Some_iff)



lemma findById_save:
  "findById i (save u us) =
     (if i = user_id u then (case findById i us of None \<Rightarrow> None | Some v \<Rightarrow> Some u)
      else findById i us)"
  by (induction us) (auto simp: findById_def findOne_def)

lemma findById_unset:
  "findById i (unset_refreshToken j us) =
     (case findById i us of
        None \<Rightarrow> None
      | Some u \<Rightarrow> Some (if i = j then u\<lparr>refreshToken := None\<rparr> else u))"
  by (induction us) (auto simp: findById_def findOne_def split: option.splits)

lemma unset_refreshToken_twice:
  "unset_refreshToken i (unset_refreshToken i us) = unset_refreshToken i us"
  by (induction us) auto

lemma current_after_save:
  "findById i us = Some u \<Longrightarrow> current_refresh_token i (save (u\<lparr>refreshToken := r\<rparr>) us) = r"
  by (frule findById_id) (simp add: current_refresh_token_def findById_save)

section \<open>The token codec\<close>

lemma validate_mint:
  "validate cfg (mint cfg sub cls t0) cls t =
     (if t0 + ttl cfg cls < t then Inl Expired else Inr (mint_token cfg sub cls t0))"
  by (simp add: validate_def mint_def mint_token_def signature_verifies_def)

lemma validate_Inr:
  "validate cfg tok cls now = Inr t \<Longrightarrow>
     tok = Encoded t \<and> signature_verifies cfg t \<and> tclass t = cls \<and> now \<le> expires_at t"
  by (auto simp: validate_def split: serialized.splits if_splits)

lemma validate_not_empty: "validate cfg tok cls now = Inr t \<Longrightarrow> tok \<noteq> Raw []"
  by (auto simp: validate_def)

lemma mint_differs:
  "validate cfg tok Refresh now0 = Inr t \<Longrightarrow> now \<noteq> issued_at t \<Longrightarrow>
     mint cfg sub Refresh now \<noteq> tok"
  by (auto simp: mint_def mint_token_def dest!: validate_Inr)

text \<open>
  C5: a token minted at \<open>t0\<close> for a subject and a class validates, with the same
  expected class, at \<open>t0\<close> and at every time up to its expiry, and the decoded token
  carries the subject unchanged; at every time \<open>t1\<close> after
  \<open>issued_at + ttl(class)\<close> its validation fails with \<open>Expired\<close>.
\<close>

theorem codec_round_trip:
  "validate cfg (mint cfg sub cls t0) cls t0 = Inr (mint_token cfg sub cls t0)
   \<and> subject (mint_token cfg sub cls t0) = sub
   \<and> issued_at (mint_token cfg sub cls t0) = t0
   \<and> (t \<le> t0 + ttl cfg cls \<longrightarrow>
        (\<exists>tok. validate cfg (mint cfg sub cls t0) cls t = Inr tok \<and> subject tok = sub))
   \<and> (t1 > issued_at (mint_token cfg sub cls t0) + ttl cfg cls \<longrightarrow>
        validate cfg (mint cfg sub cls t0) cls t1 = Inl Expired)"
  by (simp add: validate_mint) (simp add: mint_token_def)

text \<open>The round trip for alice's refresh token, minted at 100 with a time to live of 86400.\<close>

theorem codec_round_trip_witness:
  "(150::nat) \<le> 100 + ttl scenario_config Refresh
   \<and> (\<exists>tok. validate scenario_config (mint scenario_config 1 Refresh 100) Refresh 150 = Inr tok
          \<and> subject tok = 1)
   \<and> (86501::nat) > issued_at (mint_token scenario_config 1 Refresh 100) + ttl scenario_config Refresh
   \<and> validate scenario_config (mint scenario_config 1 Refresh 100) Refresh 86501 = Inl Expired"
  using codec_round_trip [of scenario_config 1 Refresh 100 150 86501]
  by (simp add: scenario_config_def ttl_def mint_token_def)

section \<open>Logout and password change\<close>

text \<open>
  C6: for an identity with an account, whatever refresh token is stored, Logout succeeds
  and leaves no stored refresh token; a second Logout succeeds with the same response
  and leaves the store as the first one left it.
\<close>

theorem logout_idempotent:
  assumes "req_user req = Some uid" and "findById uid us = Some u"
  shows "\<exists>us' res. logoutUser us req = (us', Inr res)
           \<and> logoutUser us' req = (us', Inr res)
           \<and> current_refresh_token uid us' = None
           \<and> (\<exists>u'. findById uid us' = Some u')"
  using assms
  by (simp add: logoutUser_def findById_unset unset_refreshToken_twice current_refresh_token_def)

text \<open>Alice logs out twice after her login.\<close>

theorem logout_idempotent_witness:
  "req_user (as_user 1) = Some 1
   \<and> findById 1 alice_session = Some (alice\<lparr> refreshToken := Some alice_token \<rparr>)
   \<and> logoutUser alice_session (as_user 1)
       = ([alice], Inr (json 200 [(''accessToken'', JNull), (''refreshToken'', JNull)]
                          (JObject []) ''User logged out successfully''))
   \<and> logoutUser [alice] (as_user 1)
       = ([alice], Inr (json 200 [(''accessToken'', JNull), (''refreshToken'', JNull)]
                          (JObject []) ''User logged out successfully''))
   \<and> current_refresh_token 1 [alice] = None"
  using logout_idempotent [of "as_user 1" 1 alice_session "alice\<lparr> refreshToken := Some alice_token \<rparr>"]
  by (simp add: scenario_defs eval_defs)

text \<open>
  C8: when the old plaintext verifies against the stored credential and the new
  plaintext equals the old one, ChangePassword fails with the error of status 400
  "New password cannot be same as old password", and the store, with the credential in
  it, is as it was.
\<close>

theorem change_password_noop:
  assumes "req_user req = Some uid" and "findById uid us = Some u"
    and "isPasswordCorrect u (body_oldPassword req)"
    and "body_newPassword req = body_oldPassword req"
  shows "changeUserPassword cfg us req =
           (us, Inl (ApiError 400 ''New password cannot be same as old password''))"
  using assms by (simp add: changeUserPassword_def)

text \<open>Alice asks to change \<open>secret123\<close> into \<open>secret123\<close>.\<close>

theorem change_password_noop_witness:
  "req_user ((as_user 1)\<lparr> body_oldPassword := Some ''secret123'',
                          body_newPassword := Some ''secret123'' \<rparr>) = Some 1
   \<and> findById 1 [alice] = Some alice
   \<and> isPasswordCorrect alice (Some ''secret123'')
   \<and> changeUserPassword scenario_config [alice]
        ((as_user 1)\<lparr> body_oldPassword := Some ''secret123'',
                       body_newPassword := Some ''secret123'' \<rparr>)
       = ([alice], Inl (ApiError 400 ''New password cannot be same as old password''))"
  using change_password_noop [of "(as_user 1)\<lparr> body_oldPassword := Some ''secret123'',
                       body_newPassword := Some ''secret123'' \<rparr>" 1 "[alice]" alice scenario_config]
  by (simp add: scenario_defs eval_defs)

section \<open>Refresh\<close>

lemma generate_found:
  "findById i us = Some u \<Longrightarrow>
   generateAccessAndRefreshToken cfg now us i =
     (save (u\<lparr>refreshToken := Some (mint cfg i Refresh now)\<rparr>) us,
      Inr (mint cfg i Access now, mint cfg i Refresh now))"
  by (frule findById_id) (simp add: generateAccessAndRefreshToken_def Let_def)

lemma refresh_try_fail:
  "validate cfg tok Refresh now = Inl e \<Longrightarrow> refresh_try cfg now us tok = (us, Inl (JwtError e))"
  by (simp add: refresh_try_def)

lemma refresh_try_mismatch:
  "validate cfg tok Refresh now = Inr t \<Longrightarrow> current_refresh_token (subject t) us \<noteq> Some tok \<Longrightarrow>
    \<exists>m. refresh_try cfg now us tok = (us, Inl (ApiError 401 m))"
  by (auto simp: refresh_try_def current_refresh_token_def split: option.splits)

lemma refresh_try_ok:
  "validate cfg tok Refresh now = Inr t \<Longrightarrow> current_refresh_token (subject t) us = Some tok \<Longrightarrow>
    \<exists>u. findById (subject t) us = Some u \<and> refresh_try cfg now us tok = 
      (save (u\<lparr>refreshToken := Some (mint cfg (subject t) Refresh now)\<rparr>) us,
       Inr (json 200
             [(''accessToken'', JToken (mint cfg (subject t) Access now)),
              (''refreshToken'', JToken (mint cfg (subject t) Refresh now))]
             (JObject [(''accessToken'', JToken (mint cfg (subject t) Access now)),
                       (''refreshToken'', JToken (mint cfg (subject t) Refresh now)),
                       (''token'', JToken (mint cfg (subject t) Access now))])
             ''Access token refreshed''))"
  by (auto simp: refresh_try_def current_refresh_token_def generate_found findById_id split: option.splits)

lemma refresh_unauth_invalid:
  assumes "incomingRefreshToken req = Some tok" "validate cfg tok Refresh now = Inl e"
  shows "unauthorized us (refreshAccessToken cfg now us req)"
  using assms by (simp add: refreshAccessToken_def refresh_try_fail unauthorized_def)

lemma refresh_unauth_mismatch:
  assumes "incomingRefreshToken req = Some tok" "validate cfg tok Refresh now = Inr t"
     "current_refresh_token (subject t) us \<noteq> Some tok"
  shows "unauthorized us (refreshAccessToken cfg now us req)"
  using refresh_try_mismatch[OF assms(2,3)] assms(1)
  by (auto simp add: refreshAccessToken_def  unauthorized_def)


lemma refresh_try_v2_fail:
  "validate cfg tok Refresh now = Inl e \<Longrightarrow> refresh_try_v2 cfg now us tok = (us, Inl (JwtError e))"
  by (simp add: refresh_try_v2_def)

lemma refresh_try_v2_mismatch:
  "validate cfg tok Refresh now = Inr t \<Longrightarrow> current_refresh_token (subject t) us \<noteq> Some tok \<Longrightarrow>
    \<exists>m. refresh_try_v2 cfg now us tok = (us, Inl (ApiError 401 m))"
  by (auto simp: refresh_try_v2_def current_refresh_token_def split: option.splits)

lemma refresh_try_v2_ok:
  "validate cfg tok Refresh now = Inr t \<Longrightarrow> current_refresh_token (subject t) us = Some tok \<Longrightarrow>
    \<exists>u. findById (subject t) us = Some u \<and> refresh_try_v2 cfg now us tok = 
      (save (u\<lparr>refreshToken := Some (mint cfg (subject t) Refresh now)\<rparr>) us,
       Inr (json 200
             [(''accessToken'', JToken (mint cfg (subject t) Access now)),
              (''refreshToken'', JUndefined)]
             (JObject [(''accessToken'', JToken (mint cfg (subject t) Access now)),
                       (''newRefreshToken'', JUndefined)])
             ''Access token refreshed successfully''))"
  by (auto simp: refresh_try_v2_def current_refresh_token_def generate_found findById_id split: option.splits)

lemma refresh_v2_unauth_invalid:
  assumes "incomingRefreshToken_v2 req = Some tok" "validate cfg tok Refresh now = Inl e"
  shows "unauthorized us (refreshAccessToken_v2 cfg now us req)"
  using assms by (simp add: refreshAccessToken_v2_def refresh_try_v2_fail unauthorized_def)

lemma refresh_v2_unauth_mismatch:
  assumes "incomingRefreshToken_v2 req = Some tok" "validate cfg tok Refresh now = Inr t"
     "current_refresh_token (subject t) us \<noteq> Some tok"
  shows "unauthorized us (refreshAccessToken_v2 cfg now us req)"
  using refresh_try_v2_mismatch[OF assms(2,3)] assms(1)
  by (auto simp add: refreshAccessToken_v2_def  unauthorized_def)

lemma refresh_ok:
  assumes "incomingRefreshToken req = Some tok" "validate cfg tok Refresh now = Inr t"
     "current_refresh_token (subject t) us = Some tok"
  shows "\<exists>u. findById (subject t) us = Some u \<and> refreshAccessToken cfg now us req =
      (save (u\<lparr>refreshToken := Some (mint cfg (subject t) Refresh now)\<rparr>) us,
       Inr (json 200
             [(''accessToken'', JToken (mint cfg (subject t) Access now)),
              (''refreshToken'', JToken (mint cfg (subject t) Refresh now))]
             (JObject [(''accessToken'', JToken (mint cfg (subject t) Access now)),
                       (''refreshToken'', JToken (mint cfg (subject t) Refresh now)),
                       (''token'', JToken (mint cfg (subject t) Access now))])
             ''Access token refreshed''))"
  using refresh_try_ok[OF assms(2,3)] assms(1) validate_not_empty[OF assms(2)]
  by (auto simp: refreshAccessToken_def)

lemma refresh_v2_ok:
  assumes "incomingRefreshToken_v2 req = Some tok" "validate cfg tok Refresh now = Inr t"
     "current_refresh_token (subject t) us = Some tok"
  shows "\<exists>u. findById (subject t) us = Some u \<and> refreshAccessToken_v2 cfg now us req =
      (save (u\<lparr>refreshToken := Some (mint cfg (subject t) Refresh now)\<rparr>) us,
       Inr (json 200
             [(''accessToken'', JToken (mint cfg (subject t) Access now)),
              (''refreshToken'', JUndefined)]
             (JObject [(''accessToken'', JToken (mint cfg (subject t) Access now)),
                       (''newRefreshToken'', JUndefined)])
             ''Access token refreshed successfully''))"
  using refresh_try_v2_ok[OF assms(2,3)] assms(1) validate_not_empty[OF assms(2)]
  by (auto simp: refreshAccessToken_v2_def)

lemma stale_unauthorized:
  assumes inc: "incomingRefreshToken r = Some tok"
    and cur: "current_refresh_token sub us' = Some new" and ne: "new \<noteq> tok"
    and sub: "\<And>t. tok = Encoded t \<Longrightarrow> subject t = sub"
  shows "unauthorized us' (refreshAccessToken cfg now' us' r)"
proof (cases "validate cfg tok Refresh now'")
  case (Inl e)
  then show ?thesis using inc by (rule refresh_unauth_invalid[rotated])
next
  case (Inr t')
  then have "tok = Encoded t'" by (simp add: validate_Inr)
  then have "subject t' = sub" by (rule sub)
  with cur ne have "current_refresh_token (subject t') us' \<noteq> Some tok" by simp
  with inc Inr show ?thesis by (rule refresh_unauth_mismatch)
qed

lemma stale_unauthorized_v2:
  assumes inc: "incomingRefreshToken_v2 r = Some tok"
    and cur: "current_refresh_token sub us' = Some new" and ne: "new \<noteq> tok"
    and sub: "\<And>t. tok = Encoded t \<Longrightarrow> subject t = sub"
  shows "unauthorized us' (refreshAccessToken_v2 cfg now' us' r)"
proof (cases "validate cfg tok Refresh now'")
  case (Inl e)
  then show ?thesis using inc by (rule refresh_v2_unauth_invalid[rotated])
next
  case (Inr t')
  then have "tok = Encoded t'" by (simp add: validate_Inr)
  then have "subject t' = sub" by (rule sub)
  with cur ne have "current_refresh_token (subject t') us' \<noteq> Some tok" by simp
  with inc Inr show ?thesis by (rule refresh_v2_unauth_mismatch)
qed



text \<open>
  The second variant stores the refresh token it minted and hands \<open>undefined\<close> to the
  caller in its place.
\<close>

lemma refresh_v2_returns_no_refresh_token:
  "refreshAccessToken_v2 scenario_config 160 alice_session (present alice_token) =
     ([alice\<lparr> refreshToken := Some (mint scenario_config 1 Refresh 160) \<rparr>],
      Inr (json 200
        [(''accessToken'', JToken (mint scenario_config 1 Access 160)),
         (''refreshToken'', JUndefined)]
        (JObject [(''accessToken'', JToken (mint scenario_config 1 Access 160)),
                  (''newRefreshToken'', JUndefined)])
        ''Access token refreshed successfully''))"
  by (simp add: scenario_defs eval_defs)

text \<open>
  C1 (amended): a Refresh whose presented token fails validation, or does not equal the
  current refresh token stored for the token's subject, fails with status 401 and
  leaves the store as it was. Otherwise it mints an access token and a refresh token at
  the current time, stores the new refresh token as the current one, and returns the new
  access token (the first variant returns the new refresh token as well). When the
  current time is not the time the presented token was issued at, the new refresh token
  differs from the presented one, and every later Refresh that presents the original
  token fails with status 401.
\<close>

theorem refresh_rotation:
  assumes inc: "incomingRefreshToken req = Some tok"
    and inc2: "incomingRefreshToken_v2 req2 = Some tok"
  shows
   "(\<forall>e. validate cfg tok Refresh now = Inl e \<longrightarrow>
        unauthorized us (refreshAccessToken cfg now us req)
      \<and> unauthorized us (refreshAccessToken_v2 cfg now us req2))
  \<and> (\<forall>t. validate cfg tok Refresh now = Inr t
          \<and> current_refresh_token (subject t) us \<noteq> Some tok \<longrightarrow>
        unauthorized us (refreshAccessToken cfg now us req)
      \<and> unauthorized us (refreshAccessToken_v2 cfg now us req2))
  \<and> (\<forall>t. validate cfg tok Refresh now = Inr t
          \<and> current_refresh_token (subject t) us = Some tok \<longrightarrow>
        (\<exists>us'.
           refreshAccessToken cfg now us req =
             (us', Inr (json 200
                [(''accessToken'', JToken (mint cfg (subject t) Access now)),
                 (''refreshToken'', JToken (mint cfg (subject t) Refresh now))]
                (JObject [(''accessToken'', JToken (mint cfg (subject t) Access now)),
                          (''refreshToken'', JToken (mint cfg (subject t) Refresh now)),
                          (''token'', JToken (mint cfg (subject t) Access now))])
                ''Access token refreshed''))
         \<and> fst (refreshAccessToken_v2 cfg now us req2) = us'
         \<and> (\<exists>res. snd (refreshAccessToken_v2 cfg now us req2) = Inr res
                \<and> map_of (cookies res) ''accessToken''
                    = Some (JToken (mint cfg (subject t) Access now)))
         \<and> current_refresh_token (subject t) us' = Some (mint cfg (subject t) Refresh now)
         \<and> (now \<noteq> issued_at t \<longrightarrow>
               mint cfg (subject t) Refresh now \<noteq> tok
             \<and> (\<forall>now' r. incomingRefreshToken r = Some tok \<longrightarrow>
                   unauthorized us' (refreshAccessToken cfg now' us' r))
             \<and> (\<forall>now' r. incomingRefreshToken_v2 r = Some tok \<longrightarrow>
                   unauthorized us' (refreshAccessToken_v2 cfg now' us' r)))))"
proof (intro conjI allI impI)
  fix e assume "validate cfg tok Refresh now = Inl e"
  then show "unauthorized us (refreshAccessToken cfg now us req)"
    and "unauthorized us (refreshAccessToken_v2 cfg now us req2)"
    using inc inc2 by (simp_all add: refresh_unauth_invalid refresh_v2_unauth_invalid)
next
  fix t assume "validate cfg tok Refresh now = Inr t \<and> current_refresh_token (subject t) us \<noteq> Some tok"
  then show "unauthorized us (refreshAccessToken cfg now us req)"
    and "unauthorized us (refreshAccessToken_v2 cfg now us req2)"
    using inc inc2 by (simp_all add: refresh_unauth_mismatch refresh_v2_unauth_mismatch)
next
  fix t assume h: "validate cfg tok Refresh now = Inr t \<and> current_refresh_token (subject t) us = Some tok"
  then have v: "validate cfg tok Refresh now = Inr t"
    and c: "current_refresh_token (subject t) us = Some tok" by simp_all
  let ?new = "mint cfg (subject t) Refresh now"
  from refresh_ok[OF inc v c] obtain u where
    u: "findById (subject t) us = Some u" and
    r1: "refreshAccessToken cfg now us req =
      (save (u\<lparr>refreshToken := Some ?new\<rparr>) us,
       Inr (json 200
             [(''accessToken'', JToken (mint cfg (subject t) Access now)),
              (''refreshToken'', JToken ?new)]
             (JObject [(''accessToken'', JToken (mint cfg (subject t) Access now)),
                       (''refreshToken'', JToken ?new),
                       (''token'', JToken (mint cfg (subject t) Access now))])
             ''Access token refreshed''))" by blast
  from refresh_v2_ok[OF inc2 v c] u have
    r2: "refreshAccessToken_v2 cfg now us req2 =
      (save (u\<lparr>refreshToken := Some ?new\<rparr>) us,
       Inr (json 200
             [(''accessToken'', JToken (mint cfg (subject t) Access now)),
              (''refreshToken'', JUndefined)]
             (JObject [(''accessToken'', JToken (mint cfg (subject t) Access now)),
                       (''newRefreshToken'', JUndefined)])
             ''Access token refreshed successfully''))" by auto
  let ?us' = "save (u\<lparr>refreshToken := Some ?new\<rparr>) us"
  have cur: "current_refresh_token (subject t) ?us' = Some ?new"
    using u by (rule current_after_save)
  have tok: "tok = Encoded t" using v by (simp add: validate_Inr)
  have stale: "now \<noteq> issued_at t \<longrightarrow>
               ?new \<noteq> tok
             \<and> (\<forall>now' r. incomingRefreshToken r = Some tok \<longrightarrow>
                   unauthorized ?us' (refreshAccessToken cfg now' ?us' r))
             \<and> (\<forall>now' r. incomingRefreshToken_v2 r = Some tok \<longrightarrow>
                   unauthorized ?us' (refreshAccessToken_v2 cfg now' ?us' r))"
  proof (intro impI conjI allI)
    assume n: "now \<noteq> issued_at t"
    show ne: "?new \<noteq> tok" using v n by (rule mint_differs)
    fix now' r
    { assume "incomingRefreshToken r = Some tok"
      then show "unauthorized ?us' (refreshAccessToken cfg now' ?us' r)"
        using cur ne by (rule stale_unauthorized) (simp add: tok) }
    { assume "incomingRefreshToken_v2 r = Some tok"
      then show "unauthorized ?us' (refreshAccessToken_v2 cfg now' ?us' r)"
        using cur ne by (rule stale_unauthorized_v2) (simp add: tok) }
  qed
  show "\<exists>us'.
           refreshAccessToken cfg now us req =
             (us', Inr (json 200
                [(''accessToken'', JToken (mint cfg (subject t) Access now)),
                 (''refreshToken'', JToken (mint cfg (subject t) Refresh now))]
                (JObject [(''accessToken'', JToken (mint cfg (subject t) Access now)),
                          (''refreshToken'', JToken (mint cfg (subject t) Refresh now)),
                          (''token'', JToken (mint cfg (subject t) Access now))])
                ''Access token refreshed''))
         \<and> fst (refreshAccessToken_v2 cfg now us req2) = us'
         \<and> (\<exists>res. snd (refreshAccessToken_v2 cfg now us req2) = Inr res
                \<and> map_of (cookies res) ''accessToken''
                    = Some (JToken (mint cfg (subject t) Access now)))
         \<and> current_refresh_token (subject t) us' = Some (mint cfg (subject t) Refresh now)
         \<and> (now \<noteq> issued_at t \<longrightarrow>
               mint cfg (subject t) Refresh now \<noteq> tok
             \<and> (\<forall>now' r. incomingRefreshToken r = Some tok \<longrightarrow>
                   unauthorized us' (refreshAccessToken cfg now' us' r))
             \<and> (\<forall>now' r. incomingRefreshToken_v2 r = Some tok \<longrightarrow>
                   unauthorized us' (refreshAccessToken_v2 cfg now' us' r)))"
    apply (rule exI[of _ ?us'])
    using r1 r2 cur stale by (simp add: json_def)
qed


text \<open>
  The rotation at the scenario: alice presents her token at 160, after its expiry, and
  without a session; after the rotation at 160 the original token is refused.
\<close>

theorem refresh_rotation_witness:
  "incomingRefreshToken (present alice_token) = Some alice_token
   \<and> incomingRefreshToken_v2 (present alice_token) = Some alice_token
   \<and> validate scenario_config alice_token Refresh 160 = Inr (mint_token scenario_config 1 Refresh 100)
   \<and> validate scenario_config alice_token Refresh 86501 = Inl Expired
   \<and> current_refresh_token 1 alice_session = Some alice_token
   \<and> current_refresh_token 1 [alice] \<noteq> Some alice_token
   \<and> unauthorized alice_session (refreshAccessToken scenario_config 86501 alice_session (present alice_token))
   \<and> unauthorized [alice] (refreshAccessToken_v2 scenario_config 160 [alice] (present alice_token))
   \<and> fst (refreshAccessToken scenario_config 160 alice_session (present alice_token))
       = [alice\<lparr> refreshToken := Some (mint scenario_config 1 Refresh 160) \<rparr>]
   \<and> mint scenario_config 1 Refresh 160 \<noteq> alice_token
   \<and> unauthorized [alice\<lparr> refreshToken := Some (mint scenario_config 1 Refresh 160) \<rparr>]
        (refreshAccessToken scenario_config 161
           [alice\<lparr> refreshToken := Some (mint scenario_config 1 Refresh 160) \<rparr>] (present alice_token))"
  using refresh_rotation [of "present alice_token" alice_token "present alice_token"
          scenario_config 160 alice_session]
        refresh_rotation [of "present alice_token" alice_token "present alice_token"
          scenario_config 86501 alice_session]
        refresh_rotation [of "present alice_token" alice_token "present alice_token"
          scenario_config 160 "[alice]"]
  by (simp add: scenario_defs eval_defs)


text \<open>
  Alice logs in at time 100 and refreshes at time 100: the refresh token she gets back is
  the one she presented, and a second Refresh with it, at 101, is not refused.
\<close>

theorem refresh_same_second_counterexample:
  "loginUser scenario_config 100 [alice] alice_login =
     (alice_session,
      Inr (json 200
        [(''accessToken'', JToken (mint scenario_config 1 Access 100)),
         (''refreshToken'', JToken alice_token)]
        (JObject [(''user'', JProfile (select_public alice)),
                  (''token'', JToken (mint scenario_config 1 Access 100)),
                  (''accessToken'', JToken (mint scenario_config 1 Access 100)),
                  (''refreshToken'', JToken alice_token)])
        ''User logged In Successfully''))
   \<and> refreshAccessToken scenario_config 100 alice_session (present alice_token) =
     (alice_session,
      Inr (json 200
        [(''accessToken'', JToken (mint scenario_config 1 Access 100)),
         (''refreshToken'', JToken alice_token)]
        (JObject [(''accessToken'', JToken (mint scenario_config 1 Access 100)),
                  (''refreshToken'', JToken alice_token),
                  (''token'', JToken (mint scenario_config 1 Access 100))])
        ''Access token refreshed''))
   \<and> \<not> unauthorized alice_session
         (refreshAccessToken scenario_config 101 alice_session (present alice_token))"
  by (simp add: scenario_defs eval_defs)

section \<open>One refresh token per identity\<close>








section \<open>Login\<close>

text \<open>
  C3 (amended): a Login that passes the checks of its fields fails with status 401
  both when no account matches and when the account's password does not verify; the
  message is "Invalid username or password" ("Invalid email or password" in the second
  variant) in the first case and "Invalid Credentials" in the second. The store is as it
  was in both cases.
\<close>

theorem login_failures_same_status:
  "(truthy (body_username req) \<and> truthy (body_password req)
      \<and> \<not> some_field_empty [body_username req, body_password req] \<longrightarrow>
      (findOne (\<lambda>u. username u = body_username req) us = None \<longrightarrow>
         loginUser cfg now us req = (us, Inl (ApiError 401 ''Invalid username or password'')))
    \<and> (\<forall>u. findOne (\<lambda>u. username u = body_username req) us = Some u
            \<and> \<not> isPasswordCorrect u (body_password req) \<longrightarrow>
         loginUser cfg now us req = (us, Inl (ApiError 401 ''Invalid Credentials''))))
 \<and> (truthy (body_email req) \<and> truthy (body_password req)
      \<and> \<not> some_field_empty [body_email req, body_password req] \<longrightarrow>
      (findOne (\<lambda>u. email u = body_email req) us = None \<longrightarrow>
         loginUser_v2 cfg now us req = (us, Inl (ApiError 401 ''Invalid email or password'')))
    \<and> (\<forall>u. findOne (\<lambda>u. email u = body_email req) us = Some u
            \<and> \<not> isPasswordCorrect u (body_password req) \<longrightarrow>
         loginUser_v2 cfg now us req = (us, Inl (ApiError 401 ''Invalid Credentials''))))
 \<and> exn_status (ApiError 401 ''Invalid username or password'')
      = exn_status (ApiError 401 ''Invalid Credentials'')
 \<and> exn_status (ApiError 401 ''Invalid email or password'')
      = exn_status (ApiError 401 ''Invalid Credentials'')"
  by (simp add: loginUser_def loginUser_v2_def)

text \<open>A login as bob, who has no account, and a login as alice with a wrong password.\<close>

theorem login_failures_same_status_witness:
  "truthy (body_username (empty_request\<lparr> body_username := Some ''bob'',
                                          body_password := Some ''secret123'' \<rparr>))
   \<and> findOne (\<lambda>u. username u = Some ''bob'') [alice] = None
   \<and> loginUser scenario_config 100 [alice]
        (empty_request\<lparr> body_username := Some ''bob'', body_password := Some ''secret123'' \<rparr>)
       = ([alice], Inl (ApiError 401 ''Invalid username or password''))
   \<and> findOne (\<lambda>u. email u = Some ''alice@x.com'') [alice] = Some alice
   \<and> \<not> isPasswordCorrect alice (Some ''wrong'')
   \<and> loginUser_v2 scenario_config 100 [alice]
        (empty_request\<lparr> body_email := Some ''alice@x.com'', body_password := Some ''wrong'' \<rparr>)
       = ([alice], Inl (ApiError 401 ''Invalid Credentials''))"
  using login_failures_same_status
          [of "empty_request\<lparr> body_username := Some ''bob'', body_password := Some ''secret123'' \<rparr>"
              "[alice]" scenario_config 100]
        login_failures_same_status
          [of "empty_request\<lparr> body_email := Some ''alice@x.com'', body_password := Some ''wrong'' \<rparr>"
              "[alice]" scenario_config 100]
  by (simp add: scenario_defs eval_defs)

text \<open>
  The two failures of a Login are told apart by their messages, in both variants.
\<close>

theorem login_errors_differ_counterexample:
  "loginUser scenario_config 100 [alice]
      (empty_request\<lparr> body_username := Some ''bob'', body_password := Some ''secret123'' \<rparr>)
     = ([alice], Inl (ApiError 401 ''Invalid username or password''))
   \<and> loginUser scenario_config 100 [alice]
      (empty_request\<lparr> body_username := Some ''alice'', body_password := Some ''wrong'' \<rparr>)
     = ([alice], Inl (ApiError 401 ''Invalid Credentials''))
   \<and> loginUser_v2 scenario_config 100 [alice]
      (empty_request\<lparr> body_email := Some ''bob@x.com'', body_password := Some ''secret123'' \<rparr>)
     = ([alice], Inl (ApiError 401 ''Invalid email or password''))
   \<and> loginUser_v2 scenario_config 100 [alice]
      (empty_request\<lparr> body_email := Some ''alice@x.com'', body_password := Some ''wrong'' \<rparr>)
     = ([alice], Inl (ApiError 401 ''Invalid Credentials''))
   \<and> ApiError 401 ''Invalid username or password'' \<noteq> ApiError 401 ''Invalid Credentials''
   \<and> ApiError 401 ''Invalid email or password'' \<noteq> ApiError 401 ''Invalid Credentials''"
  by (simp add: scenario_defs eval_defs)

section \<open>Register\<close>

lemma toLowerCase_alice: "toLowerCase ''alice'' = ''alice''"
  by code_simp

lemma toLowerCase_Alice: "toLowerCase ''Alice'' = ''alice''"
  by code_simp

lemma fold_max_bounds:
  "(a::nat) \<le> fold max xs a \<and> (\<forall>x \<in> set xs. x \<le> fold max xs a)"
proof (induction xs arbitrary: a)
  case Nil
  show ?case by simp
next
  case (Cons y ys)
  from Cons.IH[of "max y a"] show ?case by auto
qed

lemma fresh_id_fresh: "u \<in> set us \<Longrightarrow> user_id u < fresh_id us"
  using fold_max_bounds[of 0 "map user_id us"] by (auto simp: fresh_id_def less_Suc_eq_le)

lemma find_append_first:
  "find P (xs @ ys) = (case find P xs of None \<Rightarrow> find P ys | Some x \<Rightarrow> Some x)"
  by (induction xs) auto

lemma findById_created:
  "user_id doc = fresh_id us \<Longrightarrow> findById (fresh_id us) (us @ [doc]) = Some doc"
proof -
  assume d: "user_id doc = fresh_id us"
  have "find (\<lambda>u. user_id u = fresh_id us) us = None"
    using fresh_id_fresh[of _ us] by (fastforce simp: find_None_iff)
  with d show ?thesis by (simp add: findById_def findOne_def find_append_first)
qed

text \<open>The first variant of Register answers no request with a response.\<close>

lemma registerUser_never_returns: "\<exists>e. snd (registerUser accepts cfg us req) = Inl e"
  by (auto simp: registerUser_def User_create_def Let_def split: option.splits)

text \<open>
  C7: a Register for which no account with the same email or username exists stores a new
  credential, creates no session and returns the public profile of the created identity.
  At alice's registration on the empty store the first variant stores her account and
  then throws a ReferenceError instead of returning her profile; the second variant
  returns it.
\<close>

theorem register_v1_throws_after_create:
  "registerUser accepts_all scenario_config [] alice_register
     = ([alice], Inl (ReferenceError ''accessToken is not defined''))
   \<and> registerUser_v2 accepts_all scenario_config [] alice_register
     = ([alice], Inr (json 200 [] (JProfile (select_public alice)) ''User created successfully''))"
  by (simp add: scenario_defs eval_defs registerUser_def registerUser_v2_def User_create_def
        fresh_id_def toLowerCase_alice)

text \<open>
  The duplicate check compares the username as it came: with alice registered, a
  registration as \<open>Alice\<close> under another email is no conflict, and a schema that
  accepts it stores a second account named \<open>alice\<close>.
\<close>

lemma register_case_variant:
  "registerUser_v2 accepts_all scenario_config [alice] alice_upper =
     ([alice, \<lparr> user_id = 2, email = Some ''eve@x.com'', username = Some ''alice'',
                fullName = Some ''Eve'', password = Some (derive 10 ''hunter22''),
                refreshToken = None \<rparr>],
      Inr (json 200 []
        (JProfile \<lparr> profile_id = 2, profile_email = Some ''eve@x.com'',
           profile_username = Some ''alice'', profile_fullName = Some ''Eve'' \<rparr>)
        ''User created successfully''))"
  by (simp add: scenario_defs eval_defs alice_upper_def registerUser_v2_def User_create_def
        fresh_id_def toLowerCase_Alice)

lemma register_case_variant_no_conflict:
  "snd (registerUser_v2 accepts scenario_config [alice] alice_upper)
     \<noteq> Inl (ApiError 400 ''User with email or username already exists'')
   \<and> snd (registerUser accepts scenario_config [alice] alice_upper)
     \<noteq> Inl (ApiError 400 ''User with email or username already exists'')"
  by (simp add: scenario_defs eval_defs alice_upper_def registerUser_v2_def registerUser_def User_create_def
        fresh_id_def toLowerCase_Alice)

text \<open>
  C10 (amended): when every field of a Register request is absent or does not trim to the empty
  string, the error "Please fill all the fields" is not raised, whichever fields are
  absent, and the request goes on to the duplicate check and to the creation of the
  account: a matching account gives the error "User with email or username already
  exists"; without one, the account is created from the fields as they are when the
  schema accepts it; with the username itself absent there is no creation: the handler
  throws a TypeError at \<open>username.trim()\<close> and the store is as it was.
\<close>

theorem register_validation_skips_absent_fields:
  assumes "\<forall>f \<in> set [body_email req, body_username req, body_fullName req, body_password req].
             \<forall>s. f = Some s \<longrightarrow> trim s \<noteq> []"
  shows
   "snd (registerUser accepts cfg us req) \<noteq> Inl (ApiError 400 ''Please fill all the fields'')
  \<and> snd (registerUser_v2 accepts cfg us req) \<noteq> Inl (ApiError 400 ''Please fill all the fields'')
  \<and> (\<forall>existing.
        findOne (\<lambda>u. email u = body_email req \<or> username u = body_username req) us = Some existing
        \<longrightarrow> registerUser accepts cfg us req =
              (us, Inl (ApiError 400 ''User with email or username already exists''))
          \<and> registerUser_v2 accepts cfg us req =
              (us, Inl (ApiError 400 ''User with email or username already exists'')))
  \<and> (findOne (\<lambda>u. email u = body_email req \<or> username u = body_username req) us = None \<longrightarrow>
       (body_username req = None \<longrightarrow>
          registerUser accepts cfg us req =
            (us, Inl (TypeError ''Cannot read properties of undefined (reading 'trim')''))
        \<and> registerUser_v2 accepts cfg us req =
            (us, Inl (TypeError ''Cannot read properties of undefined (reading 'trim')'')))
     \<and> (\<forall>name doc. body_username req = Some name
           \<and> doc = \<lparr> user_id = fresh_id us, email = body_email req,
                      username = Some (toLowerCase (trim name)), fullName = body_fullName req,
                      password = map_option (derive (hash_cost cfg)) (body_password req),
                      refreshToken = None \<rparr> \<longrightarrow>
          (accepts us doc \<longrightarrow>
             registerUser accepts cfg us req =
               (us @ [doc], Inl (ReferenceError ''accessToken is not defined''))
           \<and> registerUser_v2 accepts cfg us req =
               (us @ [doc], Inr (json 200 [] (JProfile (select_public doc))
                                   ''User created successfully'')))
        \<and> (\<not> accepts us doc \<longrightarrow>
             registerUser accepts cfg us req = (us, Inl (StoreError ''User validation failed''))
           \<and> registerUser_v2 accepts cfg us req =
               (us, Inl (StoreError ''User validation failed'')))))"
  using assms
  by (auto simp: some_field_empty_def registerUser_def registerUser_v2_def User_create_def Let_def
        findById_created split: option.splits)

text \<open>
  Registrations without a full name, on the empty store and with alice registered, and
  one without username and email.
\<close>

theorem register_validation_skips_absent_fields_witness:
  "body_email (alice_register\<lparr> body_fullName := None \<rparr>) = Some ''alice@x.com''
   \<and> trim ''alice@x.com'' \<noteq> []
   \<and> body_username (alice_register\<lparr> body_fullName := None \<rparr>) = Some ''alice''
   \<and> trim ''alice'' \<noteq> []
   \<and> body_fullName (alice_register\<lparr> body_fullName := None \<rparr>) = None
   \<and> body_password (alice_register\<lparr> body_fullName := None \<rparr>) = Some ''secret123''
   \<and> trim ''secret123'' \<noteq> []
   \<and> registerUser_v2 accepts_all scenario_config [] (alice_register\<lparr> body_fullName := None \<rparr>)
       = ([alice\<lparr> fullName := None \<rparr>],
          Inr (json 200 [] (JProfile (select_public (alice\<lparr> fullName := None \<rparr>)))
                 ''User created successfully''))
   \<and> registerUser_v2 accepts_all scenario_config [alice] (alice_register\<lparr> body_fullName := None \<rparr>)
       = ([alice], Inl (ApiError 400 ''User with email or username already exists''))
   \<and> registerUser_v2 accepts_all scenario_config [alice] (alice_register\<lparr> body_username := None, body_email := None \<rparr>)
       = ([alice], Inl (TypeError ''Cannot read properties of undefined (reading 'trim')''))"
  using register_validation_skips_absent_fields
          [of "alice_register\<lparr> body_fullName := None \<rparr>" accepts_all scenario_config "[]"]
        register_validation_skips_absent_fields
          [of "alice_register\<lparr> body_fullName := None \<rparr>" accepts_all scenario_config "[alice]"]
        register_validation_skips_absent_fields
          [of "alice_register\<lparr> body_username := None, body_email := None \<rparr>" accepts_all scenario_config "[alice]"]
  by (simp add: scenario_defs eval_defs registerUser_v2_def User_create_def fresh_id_def
        toLowerCase_alice)

text \<open>
  A registration without a username, on the empty store: both variants throw, and no
  account is created.
\<close>

theorem register_absent_username_counterexample:
  "registerUser accepts_all scenario_config [] (alice_register\<lparr> body_username := None \<rparr>)
     = ([], Inl (TypeError ''Cannot read properties of undefined (reading 'trim')''))
   \<and> registerUser_v2 accepts_all scenario_config [] (alice_register\<lparr> body_username := None \<rparr>)
     = ([], Inl (TypeError ''Cannot read properties of undefined (reading 'trim')''))"
  by (simp add: scenario_defs eval_defs registerUser_def registerUser_v2_def)

section \<open>Two Refresh calls at once\<close>

lemma save_is_store:
  "findById i us = Some u \<Longrightarrow> save (u\<lparr>refreshToken := Some r\<rparr>) us = store_refreshToken i r us"
proof (induction us)
  case Nil
  then show ?case by (simp add: findById_def findOne_def)
next
  case (Cons x xs)
  from Cons.prems have "user_id u = i" by (rule findById_id)
  with Cons show ?case by (auto simp: findById_def findOne_def)
qed

lemma findById_store:
  "findById j (store_refreshToken i r us) =
     (case findById j us of None \<Rightarrow> None
      | Some u \<Rightarrow> Some (if j = i then u\<lparr>refreshToken := Some r\<rparr> else u))"
  by (induction us) (auto simp: findById_def findOne_def split: option.splits)

text \<open>The three steps of a call, run one after the other, are the handler.\<close>

lemma refresh_steps_are_handler:
  assumes "incomingRefreshToken req = Some tok" and "tok \<noteq> Raw []"
  shows "refresh_step cfg now us (Presented tok) = (us1, c1) \<Longrightarrow>
         refresh_step cfg now us1 c1 = (us2, c2) \<Longrightarrow>
         refresh_step cfg now us2 c2 = (us3, c3) \<Longrightarrow>
         c3 = Finished (snd (refreshAccessToken cfg now us req))
         \<and> us3 = fst (refreshAccessToken cfg now us req)"
  using assms
  by (auto simp: refreshAccessToken_def refresh_try_def generateAccessAndRefreshToken_def
        catch_refresh_def refresh_response_def Let_def save_is_store findById_id
        split: sum.splits option.splits if_splits dest: findById_id)

lemma step_on_course:
  assumes "on_course cfg now i us c" and "refresh_step cfg now us c = (us', c')"
  shows "on_course cfg now i us' c' \<and> steps_left c' = steps_left c - 1
         \<and> (\<forall>j. (findById j us' = None) = (findById j us = None))"
proof (cases c)
  case (Presented tok)
  with assms show ?thesis by (simp add: on_course_def)
next
  case (Verified u)
  with assms show ?thesis
    by (auto simp: on_course_def dest: findById_id split: option.splits)
next
  case (Loaded v)
  with assms show ?thesis
    by (auto simp: on_course_def Let_def findById_store split: option.splits)
next
  case (Finished r)
  with assms show ?thesis by (auto simp: on_course_def)
qed

lemma other_on_course:
  "on_course cfg now i us d \<Longrightarrow> (findById i us' = None) = (findById i us = None) \<Longrightarrow>
     on_course cfg now i us' d"
  by (auto simp: on_course_def split: refresh_call.splits)

lemma on_course_finished:
  "on_course cfg now i us c \<Longrightarrow> steps_left c = 0 \<Longrightarrow>
     c = Finished (Inr (refresh_response (mint cfg i Access now) (mint cfg i Refresh now)))"
  by (cases c) (auto simp: on_course_def)

lemma race_on_course:
  "on_course cfg nowA i us a \<Longrightarrow> on_course cfg nowB i us b \<Longrightarrow>
   steps_left a \<le> count_list sched CallA \<Longrightarrow> steps_left b \<le> count_list sched CallB \<Longrightarrow>
   \<exists>us'. interleave cfg nowA nowB sched (us, a, b) =
     (us', Finished (Inr (refresh_response (mint cfg i Access nowA) (mint cfg i Refresh nowA))),
           Finished (Inr (refresh_response (mint cfg i Access nowB) (mint cfg i Refresh nowB))))"
proof (induction sched arbitrary: us a b)
  case Nil
  then show ?case by (simp add: on_course_finished)
next
  case (Cons x sched)
  show ?case
  proof (cases x)
    case CallA
    obtain us' a' where st: "refresh_step cfg nowA us a = (us', a')" by fastforce
    from step_on_course[OF Cons.prems(1) st]
    have a': "on_course cfg nowA i us' a'" and l: "steps_left a' = steps_left a - 1"
      and f: "(findById i us' = None) = (findById i us = None)" by auto
    have b': "on_course cfg nowB i us' b" using Cons.prems(2) f by (rule other_on_course)
    have "steps_left a' \<le> count_list sched CallA" using l Cons.prems(3) CallA by simp
    moreover have "steps_left b \<le> count_list sched CallB" using Cons.prems(4) CallA by simp
    ultimately show ?thesis using Cons.IH[OF a' b'] st CallA by simp
  next
    case CallB
    obtain us' b' where st: "refresh_step cfg nowB us b = (us', b')" by fastforce
    from step_on_course[OF Cons.prems(2) st]
    have b': "on_course cfg nowB i us' b'" and l: "steps_left b' = steps_left b - 1"
      and f: "(findById i us' = None) = (findById i us = None)" by auto
    have a': "on_course cfg nowA i us' a" using Cons.prems(1) f by (rule other_on_course)
    have "steps_left b' \<le> count_list sched CallB" using l Cons.prems(4) CallB by simp
    moreover have "steps_left a \<le> count_list sched CallA" using Cons.prems(3) CallB by simp
    ultimately show ?thesis using Cons.IH[OF a' b'] st CallB by simp
  qed
qed

lemma check_passes:
  assumes "validate cfg tok Refresh now = Inr t" and "current_refresh_token (subject t) us = Some tok"
  shows "\<exists>u. refresh_step cfg now us (Presented tok) = (us, Verified u)
           \<and> on_course cfg now (subject t) us (Verified u)"
  using assms
  by (auto simp: current_refresh_token_def on_course_def dest: findById_id split: option.splits)

lemma serial_is_handlers:
  assumes "incomingRefreshToken req = Some tok" and "tok \<noteq> Raw []"
  shows "interleave cfg nowA nowB [CallA, CallA, CallA, CallB, CallB, CallB]
           (us, Presented tok, Presented tok) =
         (fst (refreshAccessToken cfg nowB (fst (refreshAccessToken cfg nowA us req)) req),
          Finished (snd (refreshAccessToken cfg nowA us req)),
          Finished (snd (refreshAccessToken cfg nowB (fst (refreshAccessToken cfg nowA us req)) req)))"
proof -
  obtain u1 c1 where s1: "refresh_step cfg nowA us (Presented tok) = (u1, c1)" by fastforce
  obtain u2 c2 where s2: "refresh_step cfg nowA u1 c1 = (u2, c2)" by fastforce
  obtain u3 c3 where s3: "refresh_step cfg nowA u2 c2 = (u3, c3)" by fastforce
  obtain v1 d1 where r1: "refresh_step cfg nowB u3 (Presented tok) = (v1, d1)" by fastforce
  obtain v2 d2 where r2: "refresh_step cfg nowB v1 d1 = (v2, d2)" by fastforce
  obtain v3 d3 where r3: "refresh_step cfg nowB v2 d2 = (v3, d3)" by fastforce
  from refresh_steps_are_handler[OF assms s1 s2 s3]
  have a: "c3 = Finished (snd (refreshAccessToken cfg nowA us req))"
    "u3 = fst (refreshAccessToken cfg nowA us req)" by auto
  from refresh_steps_are_handler[OF assms r1 r2 r3]
  have b: "d3 = Finished (snd (refreshAccessToken cfg nowB u3 req))"
    "v3 = fst (refreshAccessToken cfg nowB u3 req)" by auto
  show ?thesis using s1 s2 s3 r1 r2 r3 a b by simp
qed

text \<open>
  C4 (amended): two Refresh calls present the same valid, stored refresh token. When the
  second call starts after the first has ended, the calls are two runs of the handler: the
  first succeeds, and the second fails with status 401 if the first minted its token at a
  time other than the one the presented token was issued at. The replacement of the stored
  token is no compare-and-swap: a call reads and compares the stored token in its first
  step and writes its new token in its last, whatever is stored then. Under every schedule
  in which both calls take their first step before either goes on, both calls succeed and
  each returns the pair of tokens it minted.
\<close>

theorem refresh_race:
  assumes "incomingRefreshToken req = Some tok"
    and "validate cfg tok Refresh nowA = Inr t" and "validate cfg tok Refresh nowB = Inr t"
    and "current_refresh_token (subject t) us = Some tok"
  shows
   "interleave cfg nowA nowB [CallA, CallA, CallA, CallB, CallB, CallB]
      (us, Presented tok, Presented tok) =
    (fst (refreshAccessToken cfg nowB (fst (refreshAccessToken cfg nowA us req)) req),
     Finished (snd (refreshAccessToken cfg nowA us req)),
     Finished (snd (refreshAccessToken cfg nowB (fst (refreshAccessToken cfg nowA us req)) req)))
  \<and> succeeded (refreshAccessToken cfg nowA us req)
  \<and> (nowA \<noteq> issued_at t \<longrightarrow>
        unauthorized (fst (refreshAccessToken cfg nowA us req))
          (refreshAccessToken cfg nowB (fst (refreshAccessToken cfg nowA us req)) req))
  \<and> (\<forall>sched. 2 \<le> count_list sched CallA \<and> 2 \<le> count_list sched CallB \<longrightarrow>
        (\<exists>us'. interleave cfg nowA nowB (CallA # CallB # sched) (us, Presented tok, Presented tok) =
           (us',
            Finished (Inr (refresh_response (mint cfg (subject t) Access nowA)
                                            (mint cfg (subject t) Refresh nowA))),
            Finished (Inr (refresh_response (mint cfg (subject t) Access nowB)
                                            (mint cfg (subject t) Refresh nowB))))))"
proof (intro conjI allI impI)
  have ne: "tok \<noteq> Raw []" using assms(2) by (rule validate_not_empty)
  show "interleave cfg nowA nowB [CallA, CallA, CallA, CallB, CallB, CallB]
      (us, Presented tok, Presented tok) =
    (fst (refreshAccessToken cfg nowB (fst (refreshAccessToken cfg nowA us req)) req),
     Finished (snd (refreshAccessToken cfg nowA us req)),
     Finished (snd (refreshAccessToken cfg nowB (fst (refreshAccessToken cfg nowA us req)) req)))"
    using assms(1) ne by (rule serial_is_handlers)
  from refresh_ok[OF assms(1,2,4)] obtain u where u: "findById (subject t) us = Some u"
    and r: "refreshAccessToken cfg nowA us req =
      (save (u\<lparr>refreshToken := Some (mint cfg (subject t) Refresh nowA)\<rparr>) us,
       Inr (json 200
             [(''accessToken'', JToken (mint cfg (subject t) Access nowA)),
              (''refreshToken'', JToken (mint cfg (subject t) Refresh nowA))]
             (JObject [(''accessToken'', JToken (mint cfg (subject t) Access nowA)),
                       (''refreshToken'', JToken (mint cfg (subject t) Refresh nowA)),
                       (''token'', JToken (mint cfg (subject t) Access nowA))])
             ''Access token refreshed''))" by blast
  show "succeeded (refreshAccessToken cfg nowA us req)" by (simp add: r succeeded_def)
  { assume n: "nowA \<noteq> issued_at t"
    let ?us' = "save (u\<lparr>refreshToken := Some (mint cfg (subject t) Refresh nowA)\<rparr>) us"
    have cur: "current_refresh_token (subject t) ?us' = Some (mint cfg (subject t) Refresh nowA)"
      using u by (rule current_after_save)
    have d: "mint cfg (subject t) Refresh nowA \<noteq> tok" using assms(2) n by (rule mint_differs)
    have tk: "tok = Encoded t" using assms(2) by (simp add: validate_Inr)
    have "unauthorized ?us' (refreshAccessToken cfg nowB ?us' req)"
      using assms(1) cur d by (rule stale_unauthorized) (simp add: tk)
    then show "unauthorized (fst (refreshAccessToken cfg nowA us req))
          (refreshAccessToken cfg nowB (fst (refreshAccessToken cfg nowA us req)) req)"
      by (simp add: r) }
next
  fix sched
  assume c: "2 \<le> count_list sched CallA \<and> 2 \<le> count_list sched CallB"
  from check_passes[OF assms(2,4)] obtain ua where
    a: "refresh_step cfg nowA us (Presented tok) = (us, Verified ua)"
       "on_course cfg nowA (subject t) us (Verified ua)" by blast
  from check_passes[OF assms(3,4)] obtain ub where
    b: "refresh_step cfg nowB us (Presented tok) = (us, Verified ub)"
       "on_course cfg nowB (subject t) us (Verified ub)" by blast
  from race_on_course[OF a(2) b(2), of sched] c
  show "\<exists>us'. interleave cfg nowA nowB (CallA # CallB # sched) (us, Presented tok, Presented tok) =
           (us',
            Finished (Inr (refresh_response (mint cfg (subject t) Access nowA)
                                            (mint cfg (subject t) Refresh nowA))),
            Finished (Inr (refresh_response (mint cfg (subject t) Access nowB)
                                            (mint cfg (subject t) Refresh nowB))))"
    using a(1) b(1) by simp
qed

text \<open>
  Alice's token presented by two calls, at 160 and 161: one after the other, the second
  call is refused; when both have compared before either writes, both succeed.
\<close>

theorem refresh_race_witness:
  "incomingRefreshToken (present alice_token) = Some alice_token
   \<and> validate scenario_config alice_token Refresh 160 = Inr (mint_token scenario_config 1 Refresh 100)
   \<and> validate scenario_config alice_token Refresh 161 = Inr (mint_token scenario_config 1 Refresh 100)
   \<and> current_refresh_token (subject (mint_token scenario_config 1 Refresh 100)) alice_session
       = Some alice_token
   \<and> (160::nat) \<noteq> issued_at (mint_token scenario_config 1 Refresh 100)
   \<and> 2 \<le> count_list [CallB, CallA, CallB, CallA] CallA
   \<and> 2 \<le> count_list [CallB, CallA, CallB, CallA] CallB
   \<and> succeeded (refreshAccessToken scenario_config 160 alice_session (present alice_token))
   \<and> unauthorized [alice\<lparr> refreshToken := Some (mint scenario_config 1 Refresh 160) \<rparr>]
        (refreshAccessToken scenario_config 161
           [alice\<lparr> refreshToken := Some (mint scenario_config 1 Refresh 160) \<rparr>]
           (present alice_token))
   \<and> interleave scenario_config 160 161 [CallA, CallA, CallA, CallB, CallB, CallB]
        (alice_session, Presented alice_token, Presented alice_token) =
      ([alice\<lparr> refreshToken := Some (mint scenario_config 1 Refresh 160) \<rparr>],
       Finished (Inr (refresh_response (mint scenario_config 1 Access 160)
                                       (mint scenario_config 1 Refresh 160))),
       Finished (Inl (ApiError 401 ''Refresh token is expired or used'')))
   \<and> interleave scenario_config 160 161 [CallA, CallB, CallB, CallA, CallB, CallA]
        (alice_session, Presented alice_token, Presented alice_token) =
      ([alice\<lparr> refreshToken := Some (mint scenario_config 1 Refresh 160) \<rparr>],
       Finished (Inr (refresh_response (mint scenario_config 1 Access 160)
                                       (mint scenario_config 1 Refresh 160))),
       Finished (Inr (refresh_response (mint scenario_config 1 Access 161)
                                       (mint scenario_config 1 Refresh 161))))"
  using refresh_race [of "present alice_token" alice_token scenario_config 160
          "mint_token scenario_config 1 Refresh 100" 161 alice_session]
  by (simp add: scenario_defs eval_defs)

text \<open>
  Two calls with alice's token, at 160 and 161, each comparing before the other writes:
  both answer with a pair of new tokens, and the token of the second is the stored one.
\<close>

theorem refresh_race_counterexample:
  "interleave scenario_config 160 161 [CallA, CallB, CallA, CallA, CallB, CallB]
     (alice_session, Presented alice_token, Presented alice_token) =
   ([alice\<lparr> refreshToken := Some (mint scenario_config 1 Refresh 161) \<rparr>],
    Finished (Inr (refresh_response (mint scenario_config 1 Access 160)
                                    (mint scenario_config 1 Refresh 160))),
    Finished (Inr (refresh_response (mint scenario_config 1 Access 161)
                                    (mint scenario_config 1 Refresh 161))))
   \<and> mint scenario_config 1 Refresh 160 \<noteq> mint scenario_config 1 Refresh 161
   \<and> mint scenario_config 1 Refresh 160 \<noteq> alice_token
   \<and> mint scenario_config 1 Refresh 161 \<noteq> alice_token"
  by (simp add: scenario_defs eval_defs)

section \<open>Tasks by identity\<close>





lemma task_id_update_fields: "task_id (update_fields now req due t) = task_id t"
  by (simp add: update_fields_def)







end
